theory Spec2Isabelle
  imports Complex_Main "HOL-Library.List_Lexorder" "HOL-Library.Char_ord" "HOL-Library.Sublist"
    "HOL-Library.Multiset"
begin

section \<open>The token list builder of the documentation site (scripts/build-tokens.js)\<close>

text \<open>
  The script reads the token and synth registry of the \<open>synthetix\<close> package, describes
  every token in a sentence, renders one markdown section per token and writes the
  assembled page to \<open>content/tokens/list.md\<close>. The registry, the \<open>numbro\<close> number
  formatter and the file system are collaborators of the script: they are parameters of
  the model. The language's own operations on numbers and strings are modelled below.

  Strings are lists of code units. The registry holds ASCII text, on which the code unit
  operations of the language (comparison, \<open>toLowerCase\<close>, \<open>split\<close>) are the ones defined
  here; the one character of the script's templates outside ASCII, the right single
  quotation mark of the inverse sentence, stands as its three UTF-8 bytes, as it does in
  the written file.
\<close>

datatype error = TypeError | RangeError

subsection \<open>Numbers\<close>

text \<open>
  A Number is an IEEE 754 double: a finite value is kept as the rational it denotes, and
  every arithmetic result is rounded back to the nearest double, ties to the even
  significand. The sign of zero is not kept: neither \<open>toString\<close> nor \<open>toFixed\<close> nor the
  arithmetic of the script tells the two zeros apart.
\<close>

datatype number = NaN | PosInfinity | NegInfinity | Finite rat

text \<open>Powers with an integer exponent: by squaring, and the inverse for a negative one.\<close>

function ipow :: "rat \<Rightarrow> int \<Rightarrow> rat" where
  "ipow b k =
     (if k \<le> 0 then 1
      else let h = ipow b (k div 2) in if even k then h * h else b * h * h)"
  by pat_completeness auto
termination
  by (relation "measure (\<lambda>(b, k). nat k)") auto
declare ipow.simps [simp del]

definition bpow :: "rat \<Rightarrow> int \<Rightarrow> rat" where
  "bpow b k = (if 0 \<le> k then ipow b k else 1 / ipow b (- k))"

text \<open>The number of digits of a positive integer in base \<open>b\<close>.\<close>

function intlen :: "int \<Rightarrow> int \<Rightarrow> int" where
  "intlen b n = (if n \<le> 0 \<or> b \<le> 1 then 0 else 1 + intlen b (n div b))"
  by pat_completeness auto
termination
  by (relation "measure (\<lambda>(b, n). nat n)") (auto intro: int_div_less_self)
declare intlen.simps [simp del]

text \<open>
  \<open>ilog b q\<close> is the exponent \<open>e\<close> with \<open>b ^ e \<le> q < b ^ (e + 1)\<close> of a positive rational:
  the digit counts of numerator and denominator give it up to one.
\<close>

definition ilog :: "int \<Rightarrow> rat \<Rightarrow> int" where
  "ilog b q =
     (let (n, d) = quotient_of q;
          e0 = intlen b n - intlen b d
      in if bpow (of_int b) e0 \<le> q then e0 else e0 - 1)"

definition round_half_even :: "rat \<Rightarrow> int" where
  "round_half_even q = (let f = \<lfloor>q\<rfloor>; d = q - of_int f
     in if d < 1/2 then f else if 1/2 < d then f + 1 else if even f then f else f + 1)"

text \<open>
  Rounding a real value to a double: 53 significant bits, the exponent of the last bit not
  below -1074 (subnormal values). The significand \<open>m\<close> is at most \<open>2 ^ 53\<close>, so the rounded
  value \<open>m * 2 ^ (e - 52)\<close> reaches \<open>2 ^ 1024\<close>, and overflows to an infinity, when
  \<open>e\<close> is 1024 or more, or 1023 with the significand rounded up to \<open>2 ^ 53\<close>.
\<close>

definition round_double :: "rat \<Rightarrow> number" where
  "round_double q =
     (if q = 0 then Finite 0
      else let a = \<bar>q\<bar>;
               e = max (ilog 2 a) (- 1022);
               u = bpow 2 (e - 52);
               m = round_half_even (a / u)
           in if 1024 \<le> e \<or> (e = 1023 \<and> m = 2 ^ 53)
              then (if q < 0 then NegInfinity else PosInfinity)
              else Finite (if q < 0 then - (of_int m * u) else of_int m * u))"

text \<open>
  \<open>Number::toString\<close>: the digits \<open>s\<close> and the exponent \<open>p\<close> of the shortest decimal
  \<open>s * 10 ^ p\<close> that reads back as the number; of two such, the closer one, then the even
  one. At a given exponent only the two integers around \<open>q / 10 ^ p\<close> can do. The search
  goes from the exponent above the number's own down to the one that leaves seventeen
  digits. Seventeen digits identify every double (a property of the format that is not
  proved here), so the equation for no fuel is for values that are no doubles.
\<close>

definition candidate :: "rat \<Rightarrow> int \<Rightarrow> int option" where
  "candidate q p =
     (let t = q / bpow 10 p; lo = \<lfloor>t\<rfloor>; hi = \<lceil>t\<rceil>;
          ok = (\<lambda>c. 0 < c \<and> round_double (of_int c * bpow 10 p) = Finite q)
      in if ok lo \<and> ok hi
         then Some (if t - of_int lo < of_int hi - t then lo
                    else if of_int hi - t < t - of_int lo then hi
                    else if even lo then lo else hi)
         else if ok lo then Some lo
         else if ok hi then Some hi
         else None)"

fun shortest :: "nat \<Rightarrow> rat \<Rightarrow> int \<Rightarrow> int \<times> int" where
  "shortest 0 q p = (round_half_even (q / bpow 10 p), p)"
| "shortest (Suc fuel) q p =
     (case candidate q p of Some c \<Rightarrow> (c, p) | None \<Rightarrow> shortest fuel q (p - 1))"

definition digit_char :: "int \<Rightarrow> char" where
  "digit_char d = char_of (48 + d)"

function digits :: "int \<Rightarrow> string" where
  "digits n = (if n < 10 then [digit_char n] else digits (n div 10) @ [digit_char (n mod 10)])"
  by pat_completeness auto
termination
  by (relation "measure nat") auto
declare digits.simps [simp del]

definition positive_toString :: "rat \<Rightarrow> string" where
  "positive_toString q =
     (let (s, p) = shortest 18 q (ilog 10 q + 1);
          ds = digits s;
          k = int (length ds);
          n = p + k
      in if k \<le> n \<and> n \<le> 21 then ds @ replicate (nat (n - k)) CHR ''0''
         else if 0 < n \<and> n \<le> 21 then take (nat n) ds @ ''.'' @ drop (nat n) ds
         else if - 6 < n \<and> n \<le> 0 then ''0.'' @ replicate (nat (- n)) CHR ''0'' @ ds
         else let e = n - 1;
                  es = (if e < 0 then ''-'' else ''+'') @ digits \<bar>e\<bar>
              in if k = 1 then ds @ ''e'' @ es
                 else take 1 ds @ ''.'' @ drop 1 ds @ ''e'' @ es)"

fun toString :: "number \<Rightarrow> string" where
  "toString NaN = ''NaN''"
| "toString PosInfinity = ''Infinity''"
| "toString NegInfinity = ''-Infinity''"
| "toString (Finite q) =
     (if q = 0 then ''0''
      else if q < 0 then ''-'' @ positive_toString (- q)
      else positive_toString q)"

text \<open>
  \<open>Number.prototype.toFixed\<close>, with the range 0 to 100 of fraction digits (ES2018). The
  integer \<open>n\<close> is the one with \<open>n / 10 ^ f\<close> nearest to the value, the larger of two; its
  digits are padded with zeros to \<open>f + 1\<close> characters and the dot is put before the last
  \<open>f\<close> of them.
\<close>

definition fixed_digits :: "int \<Rightarrow> nat \<Rightarrow> string" where
  "fixed_digits n f =
     (let m = digits n
      in if f = 0 then m
         else let m = replicate (Suc f - length m) CHR ''0'' @ m;
                  k = length m
              in take (k - f) m @ ''.'' @ drop (k - f) m)"

definition toFixed :: "number \<Rightarrow> nat \<Rightarrow> error + string" where
  "toFixed x f =
     (if 100 < f then Inl RangeError
      else case x of
        Finite q \<Rightarrow>
          (if 10 ^ 21 \<le> \<bar>q\<bar> then Inr (toString x)
           else let n = \<lfloor>\<bar>q\<bar> * 10 ^ f + 1 / 2\<rfloor>
                in Inr ((if q < 0 then ''-'' else []) @ fixed_digits n f))
      | _ \<Rightarrow> Inr (toString x))"

text \<open>The operators \<open>*\<close> and \<open>-\<close> on Numbers.\<close>

fun negative :: "number \<Rightarrow> bool" where
  "negative (Finite q) = (q < 0)"
| "negative NegInfinity = True"
| "negative _ = False"

definition js_mul :: "number \<Rightarrow> number \<Rightarrow> number" where
  "js_mul x y =
     (case (x, y) of
        (Finite a, Finite b) \<Rightarrow> round_double (a * b)
      | _ \<Rightarrow>
          if x = NaN \<or> y = NaN \<or> x = Finite 0 \<or> y = Finite 0 then NaN
          else if negative x \<noteq> negative y then NegInfinity
          else PosInfinity)"

fun js_sub :: "number \<Rightarrow> number \<Rightarrow> number" where
  "js_sub (Finite a) (Finite b) = round_double (a - b)"
| "js_sub NaN y = NaN"
| "js_sub x NaN = NaN"
| "js_sub PosInfinity PosInfinity = NaN"
| "js_sub NegInfinity NegInfinity = NaN"
| "js_sub PosInfinity y = PosInfinity"
| "js_sub NegInfinity y = NegInfinity"
| "js_sub (Finite a) PosInfinity = NegInfinity"
| "js_sub (Finite a) NegInfinity = PosInfinity"


subsection \<open>Strings\<close>

text \<open>\<open>String.prototype.split\<close> with a separator of one character.\<close>

fun js_split :: "char \<Rightarrow> string \<Rightarrow> string list" where
  "js_split c [] = [[]]"
| "js_split c (x # xs) =
     (if x = c then [] # js_split c xs
      else case js_split c xs of [] \<Rightarrow> [[x]] | y # ys \<Rightarrow> (x # y) # ys)"

fun js_join :: "string \<Rightarrow> string list \<Rightarrow> string" where
  "js_join sep [] = []"
| "js_join sep [x] = x"
| "js_join sep (x # y # ys) = x @ sep @ js_join sep (y # ys)"

definition lower_char :: "char \<Rightarrow> char" where
  "lower_char c =
     (if CHR ''A'' \<le> c \<and> c \<le> CHR ''Z'' then char_of (of_char c + (32::nat)) else c)"

definition toLowerCase :: "string \<Rightarrow> string" where
  "toLowerCase s = map lower_char s"

text \<open>\<open>xs[i]\<close> is \<open>undefined\<close> out of range, and \<open>x || ''\<close> replaces \<open>undefined\<close> (and the
  empty string) by the empty string.\<close>

definition at_index :: "'a list \<Rightarrow> nat \<Rightarrow> 'a option" where
  "at_index xs i = (if i < length xs then Some (xs ! i) else None)"

fun or_empty :: "string option \<Rightarrow> string" where
  "or_empty None = []"
| "or_empty (Some s) = s"


subsection \<open>The threshold calculator\<close>

definition doRounding :: "number \<Rightarrow> number \<Rightarrow> error + string" where
  "doRounding entry limit =
     (let num = js_sub (js_mul entry (Finite 2)) limit;
          decimals = length (or_empty (at_index (js_split CHR ''.'' (toString limit)) 1))
      in toFixed num decimals)"

subsection \<open>The registry's records\<close>

text \<open>
  The fields are the ones the script reads. \<open>inverted\<close> and \<open>index\<close> are objects and
  arrays or absent, so they are truthy exactly when present; \<open>feed\<close> is a string, falsy
  when absent and when empty.
\<close>

record inversion =
  entryPoint :: number
  upperLimit :: number
  lowerLimit :: number

record component =
  component_symbol :: string
  component_name :: string
  units :: number

record synth =
  synth_name :: string
  synth_desc :: string
  synth_asset :: string
  synth_inverted :: "inversion option"
  synth_index :: "component list option"

record token =
  symbol :: string
  token_desc :: string
  asset :: string
  address :: string
  decimals :: number
  index :: "component list option"
  inverted :: "inversion option"
  feed :: "string option"

text \<open>
  An element of \<open>tokens\<close>: \<open>Object.assign({ name: entry.desc, description }, entry)\<close>, the
  registry's entry with \<open>name\<close> and \<open>description\<close> added. The entry's own fields are
  copied last; it has neither a \<open>name\<close> nor a \<open>description\<close> of its own to put in their
  place.
\<close>

record listing = token +
  name :: string
  description :: string

record registry =
  getSynths :: "synth list"
  getTokens :: "token list"
  oracle_address :: string

subsection \<open>The describer\<close>

text \<open>\<open>s.replace(/^Inverted /, '')\<close>\<close>

definition strip_inverted :: "string \<Rightarrow> string" where
  "strip_inverted s = (if take 9 s = ''Inverted '' then drop 9 s else s)"

definition stable_sentence :: string where
  "stable_sentence =
     ''Tracks the price of a single US Dollar (USD). This Synth always remains constant at 1.''"

definition backslash_dollar :: string where
  "backslash_dollar = [CHR 0x5C, CHR ''$'']"

definition right_quote :: string where
  "right_quote = [CHR 0xE2, CHR 0x80, CHR 0x99]"

definition component_text :: "component \<Rightarrow> string" where
  "component_text c =
     toString (units c) @ '' of '' @ component_symbol c @
     (if component_name c \<noteq> component_symbol c then '' ('' @ component_name c @ '')'' else [])"

text \<open>The three templates of \<open>desc\<close> that take parameters.\<close>

definition inverse_sentence ::
  "string \<Rightarrow> string \<Rightarrow> inversion \<Rightarrow> string \<Rightarrow> string \<Rightarrow> string \<Rightarrow> string" where
  "inverse_sentence underlying assetSuffix params upper lower nm =
     ''Inversely tracks the price of '' @ underlying @ assetSuffix @
     '' through price feeds supplied by an oracle. '' @
     ''The entry point is '' @ backslash_dollar @ toString (entryPoint params) @
     '' (the approximate market price at time of creation). '' @
     ''This Synth freezes when it reaches its upper limit of '' @ backslash_dollar @
     toString (upperLimit params) @ '' (i.e. when '' @ underlying @ [CHR 0x27] @ ''s '' @
     ''value reaches '' @ backslash_dollar @ upper @
     '') or its lower limit of '' @ backslash_dollar @ toString (lowerLimit params) @
     '' (i.e. when '' @ underlying @ right_quote @ ''s value '' @
     ''reaches '' @ backslash_dollar @ lower @
     ''). If it reaches either of its limits and gets frozen, it will no longer be '' @
     ''able to be purchased on Synthetix.Exchange, but can still be traded for other Synths at its frozen '' @
     ''value. At some point after it has reached either of its limits, it will be substituted for another '' @
     nm @ '' with different limits.''"

definition index_sentence :: "string \<Rightarrow> string \<Rightarrow> component list \<Rightarrow> string" where
  "index_sentence underlying assetSuffix ix =
     ''Tracks the price of the index: '' @ underlying @ assetSuffix @
     '' through price feeds supplied by an oracle. '' @
     ''This index is made up of the following assets and weights: '' @
     js_join '', '' (map component_text ix) @ ''.''"

definition plain_sentence :: "string \<Rightarrow> string \<Rightarrow> string" where
  "plain_sentence underlying assetSuffix =
     ''Tracks the price of '' @ underlying @ assetSuffix @
     '' through price feeds supplied by an oracle.''"

text \<open>
  \<open>desc\<close> reads \<open>synth.desc\<close> first, which throws a TypeError on \<open>undefined\<close>, the result
  of a \<open>find\<close> that found nothing. The two calls of \<open>doRounding\<close> are the only other
  places that can throw.
\<close>

definition desc :: "synth option \<Rightarrow> error + string" where
  "desc s =
     (case s of
        None \<Rightarrow> Inl TypeError
      | Some synth \<Rightarrow>
          let underlying = strip_inverted (synth_desc synth);
              assetSuffix =
                (if synth_name synth \<noteq> underlying then '' ('' @ synth_asset synth @ '')'' else [])
          in if synth_name synth = ''sUSD'' then Inr stable_sentence
             else (case synth_inverted synth of
               Some params \<Rightarrow>
                 (case doRounding (entryPoint params) (upperLimit params) of
                    Inl e \<Rightarrow> Inl e
                  | Inr upper \<Rightarrow>
                      (case doRounding (entryPoint params) (lowerLimit params) of
                         Inl e \<Rightarrow> Inl e
                       | Inr lower \<Rightarrow>
                           Inr (inverse_sentence underlying assetSuffix params upper lower
                                  (synth_name synth))))
             | None \<Rightarrow>
                 (case synth_index synth of
                    Some ix \<Rightarrow> Inr (index_sentence underlying assetSuffix ix)
                  | None \<Rightarrow> Inr (plain_sentence underlying assetSuffix))))"

subsection \<open>The token list\<close>

definition snx_description :: string where
  "snx_description =
     ''The Synthetix Network Token (SNX) gets staked as collateral to back Synths and entitles stakers to receive fees generated by Synth trades on Synthetix.Exchange.''"

definition describe_entry :: "synth list \<Rightarrow> token \<Rightarrow> error + listing" where
  "describe_entry synths entry =
     (let s = find (\<lambda>s. synth_name s = symbol entry) synths
      in case (if symbol entry = ''SNX'' then Inr snx_description else desc s) of
           Inl e \<Rightarrow> Inl e
         | Inr d \<Rightarrow>
             Inr \<lparr>symbol = symbol entry, token_desc = token_desc entry, asset = asset entry,
                  address = address entry, decimals = decimals entry, index = index entry,
                  inverted = inverted entry, feed = feed entry,
                  name = token_desc entry, description = d\<rparr>)"

text \<open>\<open>Array.prototype.map\<close> with a callback that may throw: the first exception ends it.\<close>

fun map_result :: "('a \<Rightarrow> error + 'b) \<Rightarrow> 'a list \<Rightarrow> error + 'b list" where
  "map_result f [] = Inr []"
| "map_result f (x # xs) =
     (case f x of
        Inl e \<Rightarrow> Inl e
      | Inr y \<Rightarrow> (case map_result f xs of Inl e \<Rightarrow> Inl e | Inr ys \<Rightarrow> Inr (y # ys)))"

text \<open>
  \<open>Array.prototype.sort\<close> with a comparison function. The language leaves the algorithm to
  the engine; this is insertion sort, as V8 has run it on short arrays: every element
  moves left past the elements the comparison puts after it. The sorted part is kept
  reversed. The comparison functions of the script never return 0, so elements with the
  same key are the only ones whose order depends on the algorithm.
\<close>

fun insert_element :: "('a \<Rightarrow> 'a \<Rightarrow> int) \<Rightarrow> 'a \<Rightarrow> 'a list \<Rightarrow> 'a list" where
  "insert_element comparefn element [] = [element]"
| "insert_element comparefn element (tmp # rest) =
     (if 0 < comparefn tmp element then tmp # insert_element comparefn element rest
      else element # tmp # rest)"

definition js_sort :: "('a \<Rightarrow> 'a \<Rightarrow> int) \<Rightarrow> 'a list \<Rightarrow> 'a list" where
  "js_sort comparefn a = rev (foldl (\<lambda>acc element. insert_element comparefn element acc) [] a)"

definition tokens :: "registry \<Rightarrow> error + listing list" where
  "tokens reg =
     (case map_result (describe_entry (getSynths reg)) (getTokens reg) of
        Inl e \<Rightarrow> Inl e
      | Inr ts \<Rightarrow> Inr (js_sort (\<lambda>a b. if asset a > asset b then 1 else - 1) ts))"

subsection \<open>The blocks of a section\<close>

text \<open>\<open>format\<close> is \<open>numbro\<close>'s: the parameter \<open>fmt\<close> of the functions that call it.\<close>

definition getLinkToAsset :: "string \<Rightarrow> string \<Rightarrow> string" where
  "getLinkToAsset nm ast =
     toLowerCase (js_join ''-'' (drop 1 (js_split CHR '' '' nm)) @ ''-s'' @ ast)"

definition addInverseParameters ::
  "(number \<Rightarrow> string) \<Rightarrow> inversion option \<Rightarrow> string \<Rightarrow> string \<Rightarrow> string" where
  "addInverseParameters fmt inv_opt ast nm =
     (case inv_opt of
        None \<Rightarrow> []
      | Some params \<Rightarrow>
          ''**Inverse of**: [s'' @ ast @ ''](#'' @ getLinkToAsset nm ast @ '')\<newline>\<newline>'' @
          ''| Entry Point | Upper Limit | Lower Limit |\<newline>'' @
          ''| - | - | - |\<newline>'' @
          ''| $'' @ fmt (entryPoint params) @ '' | $'' @ fmt (upperLimit params) @
          '' | $'' @ fmt (lowerLimit params) @ ''|\<newline>\<newline>'')"

definition index_row :: "(number \<Rightarrow> string) \<Rightarrow> component \<Rightarrow> string" where
  "index_row fmt c =
     ''| '' @ component_name c @ '' | '' @ component_symbol c @ '' | '' @ fmt (units c) @
     '' |\<newline>''"

definition addIndexParameters ::
  "(number \<Rightarrow> string) \<Rightarrow> component list option \<Rightarrow> inversion option \<Rightarrow> string \<Rightarrow> string
     \<Rightarrow> string" where
  "addIndexParameters fmt index_opt inv_opt ast nm =
     (case index_opt of
        None \<Rightarrow> []
      | Some ix \<Rightarrow>
          let header =
                ''**Index of**: [s'' @ ast @ ''](#'' @ getLinkToAsset nm ast @ '')\<newline>\<newline>''
          in if inv_opt \<noteq> None then header
             else header @
                  ''| Token | Symbol | Units |\<newline>| - | - | - |\<newline>'' @
                  js_join [] (map (index_row fmt) ix) @
                  ''\<newline>'')"

text \<open>
  \<open>linkMap\<close> is an object literal with two properties of its own. A property read that
  finds none of them goes on to \<open>Object.prototype\<close>; what it finds there is a function or
  an object, which is truthy and which the template turns into text (the text is V8's).
\<close>

definition linkMap :: "string \<Rightarrow> string option" where
  "linkMap k =
     (if k = ''FTSE100'' then Some ''ftse-gbp''
      else if k = ''NIKKEI225'' then Some ''n225-jpy''
      else None)"

definition object_prototype :: "string \<Rightarrow> string option" where
  "object_prototype k =
     (if k = ''constructor'' then Some ''function Object() { [native code] }''
      else if List.member
                [''__defineGetter__'', ''__defineSetter__'', ''hasOwnProperty'',
                 ''__lookupGetter__'', ''__lookupSetter__'', ''isPrototypeOf'',
                 ''propertyIsEnumerable'', ''toString'', ''valueOf'', ''toLocaleString''] k
      then Some (''function '' @ k @ ''() { [native code] }'')
      else if k = ''__proto__'' then Some ''[object Object]''
      else None)"

definition symbolLink :: "string \<Rightarrow> string" where
  "symbolLink ast =
     (case linkMap ast of
        Some v \<Rightarrow> v
      | None \<Rightarrow>
          (case object_prototype ast of
             Some v \<Rightarrow> v
           | None \<Rightarrow> toLowerCase ast @ ''-usd''))"

definition centralized_block :: "string \<Rightarrow> string" where
  "centralized_block snxOracle =
     ''**Price Feed**: Synthetix (centralized)\<newline>\<newline>- Oracle: ['' @ snxOracle @
     ''](https://etherscan.io/address/'' @ snxOracle @ '')'' @
     ''\<newline>- Contract: [ExchangeRates](https://contracts.synthetix.io/ExchangeRates)\<newline>\<newline>''"

definition addOracleParameters :: "string \<Rightarrow> string \<Rightarrow> string option \<Rightarrow> string" where
  "addOracleParameters snxOracle ast feed_opt =
     (case feed_opt of
        None \<Rightarrow> centralized_block snxOracle
      | Some fd \<Rightarrow>
          if fd = [] then centralized_block snxOracle
          else ''**Price Feed**: Chainlink (decentralized)\<newline>\<newline>'' @
               ''- Oracles: [Network overview](https://feeds.chain.link/'' @ symbolLink ast @ '')'' @
               ''\<newline>- Contract: [Aggregator](https://etherscan.io/address/'' @ fd @
               '')\<newline>\<newline>'')"

subsection \<open>The page\<close>

definition suspended_notice :: string where
  \<open>suspended_notice =
     ''!!! warning "Suspended"\<newline>\<newline>    MKR has been suspended due to [SIP-34](https://sips.synthetix.io/sips/sip-34)\<newline>\<newline>''\<close>

definition section_of :: "(number \<Rightarrow> string) \<Rightarrow> string \<Rightarrow> listing \<Rightarrow> string" where
  "section_of fmt snxOracle t =
     ''## '' @ name t @ '' ('' @ symbol t @ '')\<newline>\<newline>'' @
     (if asset t = ''MKR'' then suspended_notice else []) @
     ''**Contract:** ['' @ address t @ ''](https://etherscan.io/token/'' @ address t @
     '')\<newline>\<newline>'' @
     ''**Decimals:** '' @ toString (decimals t) @ ''\<newline>\<newline>'' @
     ''**Price:** ['' @ symbol t @ '' on synthetix.exchange](https://synthetix.exchange/#/synths/'' @
     symbol t @ '')\<newline>\<newline>'' @
     addOracleParameters snxOracle (asset t) (feed t) @
     addInverseParameters fmt (inverted t) (asset t) (name t) @
     addIndexParameters fmt (index t) (inverted t) (asset t) (name t) @
     ''>'' @ description t"

definition page_head :: string where
  \<open>page_head =
     ''\<newline># Token List\<newline>\<newline>!!! Tip "Decentralizing the remaining price feeds"\<newline>\<newline>'' @
     ''    We're in the process of migrating all price feeds to Chainlink's decentralized network.\<newline>'' @
     ''    This change is coming with [SIP-36](https://sips.synthetix.io/sips/sip-36).\<newline>\<newline>''\<close>

text \<open>The sections in the order of the page: \<open>tokens.sort\<close> by \<open>name\<close>.\<close>

definition sections :: "listing list \<Rightarrow> listing list" where
  "sections ts = js_sort (\<lambda>a b. if name a > name b then 1 else - 1) ts"

definition content :: "(number \<Rightarrow> string) \<Rightarrow> string \<Rightarrow> listing list \<Rightarrow> string" where
  "content fmt snxOracle ts =
     page_head @
     js_join ''\<newline>\<newline>'' (map (section_of fmt snxOracle) (sections ts)) @
     ''\<newline>\<newline>''"

subsection \<open>The run of the script\<close>

text \<open>
  The world the script acts on: the files by path, and the lines of the console. The run
  returns the exception that ended it, if any, and the world it leaves. The path of the
  page is taken from the root of the repository, the directory above the script's.
\<close>

record world =
  files :: "string \<rightharpoonup> string"
  console :: "string list"

definition output_path :: string where
  "output_path = ''content/tokens/list.md''"

definition build_tokens ::
  "registry \<Rightarrow> (number \<Rightarrow> string) \<Rightarrow> world \<Rightarrow> error option \<times> world" where
  "build_tokens reg fmt w =
     (let w1 = w\<lparr>console := console w @ [''Building tokens.md'']\<rparr>
      in case tokens reg of
           Inl e \<Rightarrow> (Some e, w1)
         | Inr ts \<Rightarrow>
             (None, w1\<lparr>files := (files w1)(output_path \<mapsto> content fmt (oracle_address reg) ts)\<rparr>))"

subsection \<open>Notions of the specification\<close>

text \<open>
  The variant of a record in the specification's words: the stable unit first, then a
  record with inversion parameters, then one with an index composition, then the rest.
\<close>

datatype variant = Stable | Inverted | Index | Plain


text \<open>
  The anchor in the specification's words: the display name without its first token, in
  lower case, joined with hyphens, and \<open>-s\<close> and the asset appended.
\<close>

definition anchor_as_specified :: "string \<Rightarrow> string \<Rightarrow> string" where
  "anchor_as_specified nm ast =
     js_join ''-'' (map toLowerCase (drop 1 (js_split CHR '' '' nm))) @ ''-s'' @ ast"





section \<open>Properties\<close>

subsection \<open>Powers, digit counts and logarithms\<close>







subsection \<open>Rounding and the range of the doubles\<close>





subsection \<open>Digit strings\<close>













subsection \<open>The fraction of a printed Number\<close>







subsection \<open>The output of \<open>toFixed\<close>\<close>









subsection \<open>The threshold calculator\<close>











subsection \<open>The describer\<close>

text \<open>
  Claim C2. A synth named \<open>sUSD\<close> is described by the fixed sentence, whatever its other
  fields hold: the test of the name comes first.
\<close>

theorem desc_stable:
  "synth_name s = ''sUSD'' \<Longrightarrow>
   desc (Some s) =
     Inr ''Tracks the price of a single US Dollar (USD). This Synth always remains constant at 1.''"
  by (simp add: desc_def stable_sentence_def Let_def)

text \<open>An \<open>sUSD\<close> record that carries inversion parameters and an index all the same.\<close>

theorem desc_stable_witness:
  "desc (Some \<lparr>synth_name = ''sUSD'', synth_desc = ''Inverted US Dollars'', synth_asset = ''USD'',
                 synth_inverted =
                   Some \<lparr>entryPoint = Finite 100, upperLimit = NaN, lowerLimit = Finite 75\<rparr>,
                 synth_index =
                   Some [\<lparr>component_symbol = ''BNB'', component_name = ''Binance Coin'',
                           units = Finite 5\<rparr>]\<rparr>) =
     Inr ''Tracks the price of a single US Dollar (USD). This Synth always remains constant at 1.''"
  using desc_stable
    [of "\<lparr>synth_name = ''sUSD'', synth_desc = ''Inverted US Dollars'', synth_asset = ''USD'',
           synth_inverted =
             Some \<lparr>entryPoint = Finite 100, upperLimit = NaN, lowerLimit = Finite 75\<rparr>,
           synth_index =
             Some [\<lparr>component_symbol = ''BNB'', component_name = ''Binance Coin'',
                     units = Finite 5\<rparr>]\<rparr>"]
  by simp

lemma strip_inverted_prefix: "strip_inverted (''Inverted '' @ u) = u"
  by (simp add: strip_inverted_def)

lemma strip_inverted_other: "\<not> prefix ''Inverted '' d \<Longrightarrow> strip_inverted d = d"
  unfolding strip_inverted_def prefix_def
  by (metis append_take_drop_id)

text \<open>
  Claim C4. A synth that is not \<open>sUSD\<close>, not inverted and not an index is described by
  the generic sentence about \<open>u\<close>, its description without a leading \<open>Inverted \<close>; the
  asset in parentheses follows exactly when the synth's name is not \<open>u\<close>.
\<close>

theorem desc_plain:
  assumes "synth_name s \<noteq> ''sUSD''" and "synth_inverted s = None" and "synth_index s = None"
    and "synth_desc s = ''Inverted '' @ u \<or>
         (\<not> prefix ''Inverted '' (synth_desc s) \<and> u = synth_desc s)"
  shows "desc (Some s) =
     Inr (''Tracks the price of '' @ u @
          (if synth_name s = u then [] else '' ('' @ synth_asset s @ '')'') @
          '' through price feeds supplied by an oracle.'')"
proof -
  from assms(4) have "strip_inverted (synth_desc s) = u"
    using strip_inverted_prefix strip_inverted_other by auto
  with assms(1-3) show ?thesis
    by (simp add: desc_def plain_sentence_def Let_def)
qed

theorem desc_plain_witness:
  "desc (Some \<lparr>synth_name = ''sETH'', synth_desc = ''Ether'', synth_asset = ''ETH'',
                 synth_inverted = None, synth_index = None\<rparr>) =
     Inr ''Tracks the price of Ether (ETH) through price feeds supplied by an oracle.''"
  using desc_plain
    [of "\<lparr>synth_name = ''sETH'', synth_desc = ''Ether'', synth_asset = ''ETH'',
           synth_inverted = None, synth_index = None\<rparr>" "''Ether''"]
  by (simp add: prefix_def)







subsection \<open>The anchor of a cross-link\<close>

lemma lower_char_hyphen: "lower_char CHR ''-'' = CHR ''-''"
  by code_simp

lemma lower_char_s: "lower_char CHR ''s'' = CHR ''s''"
  by code_simp

lemma toLowerCase_append: "toLowerCase (xs @ ys) = toLowerCase xs @ toLowerCase ys"
  by (simp add: toLowerCase_def)

lemma toLowerCase_join: "toLowerCase (js_join ''-'' xs) = js_join ''-'' (map toLowerCase xs)"
proof (induction "''-''" xs rule: js_join.induct)
  case 1
  show ?case by (simp add: toLowerCase_def)
next
  case (2 x)
  show ?case by simp
next
  case (3 x y ys)
  then show ?case
    by (simp add: toLowerCase_def lower_char_hyphen)
qed

text \<open>
  Claim C7, as stated, fails on a ticker in upper case: \<open>toLowerCase\<close> is applied last, to
  the whole anchor, so the asset is lowered too.
\<close>

theorem getLinkToAsset_counterexample:
  "getLinkToAsset ''Inverted Bitcoin'' ''BTC'' = ''bitcoin-sbtc'' \<and>
   anchor_as_specified ''Inverted Bitcoin'' ''BTC'' = ''bitcoin-sBTC'' \<and>
   getLinkToAsset ''Inverted Bitcoin'' ''BTC'' \<noteq> anchor_as_specified ''Inverted Bitcoin'' ''BTC''"
  by code_simp

text \<open>
  Claim C7, amended. The anchor is the display name without its first space-delimited
  token, each remaining token in lower case, joined with hyphens, followed by \<open>-s\<close> and
  the asset ticker in lower case.
\<close>

theorem getLinkToAsset_lowercases_all:
  "getLinkToAsset nm ast =
     js_join ''-'' (map toLowerCase (drop 1 (js_split CHR '' '' nm))) @ ''-s'' @ toLowerCase ast"
proof -
  have "toLowerCase (''-s'' @ ast) = ''-s'' @ toLowerCase ast"
    by (simp add: toLowerCase_def lower_char_hyphen lower_char_s)
  then show ?thesis
    by (simp add: getLinkToAsset_def toLowerCase_append toLowerCase_join del: append.simps)
qed

subsection \<open>The index block\<close>

lemma js_join_empty_separator: "js_join [] xs = concat xs"
  by (induction "[] :: string" xs rule: js_join.induct) simp_all

text \<open>
  Claim C5. The index block of a section is empty exactly when the record has no index.
  With an index and inversion parameters it is the \<open>Index of\<close> link line alone; with an
  index and no inversion it is that line, the table head, one row per component and an
  empty line. The block stands in the section right before the quoted description.
\<close>

theorem index_block:
  "(addIndexParameters fmt ix inv_opt ast nm = [] \<longleftrightarrow> ix = None) \<and>
   (\<forall>comps params. ix = Some comps \<and> inv_opt = Some params \<longrightarrow>
      addIndexParameters fmt ix inv_opt ast nm =
        ''**Index of**: [s'' @ ast @ ''](#'' @ getLinkToAsset nm ast @ '')\<newline>\<newline>'') \<and>
   (\<forall>comps. ix = Some comps \<and> inv_opt = None \<longrightarrow>
      addIndexParameters fmt ix inv_opt ast nm =
        ''**Index of**: [s'' @ ast @ ''](#'' @ getLinkToAsset nm ast @ '')\<newline>\<newline>'' @
        ''| Token | Symbol | Units |\<newline>| - | - | - |\<newline>'' @
        concat (map (\<lambda>c. ''| '' @ component_name c @ '' | '' @ component_symbol c @ '' | '' @
                         fmt (units c) @ '' |\<newline>'') comps) @
        ''\<newline>'') \<and>
   (\<exists>before. section_of fmt orc t =
      before @ addIndexParameters fmt (index t) (inverted t) (asset t) (name t) @
      ''>'' @ description t)"
proof (intro conjI allI impI)
  show "(addIndexParameters fmt ix inv_opt ast nm = []) = (ix = None)"
    by (cases ix) (simp_all add: addIndexParameters_def Let_def)
next
  fix comps params
  assume "ix = Some comps \<and> inv_opt = Some params"
  then show "addIndexParameters fmt ix inv_opt ast nm =
        ''**Index of**: [s'' @ ast @ ''](#'' @ getLinkToAsset nm ast @ '')\<newline>\<newline>''"
    by (simp add: addIndexParameters_def Let_def)
next
  fix comps
  have rows: "map (index_row fmt) comps =
      map (\<lambda>c. ''| '' @ component_name c @ '' | '' @ component_symbol c @ '' | '' @
                 fmt (units c) @ '' |\<newline>'') comps"
    by (simp add: index_row_def)
  assume "ix = Some comps \<and> inv_opt = None"
  then show "addIndexParameters fmt ix inv_opt ast nm =
        ''**Index of**: [s'' @ ast @ ''](#'' @ getLinkToAsset nm ast @ '')\<newline>\<newline>'' @
        ''| Token | Symbol | Units |\<newline>| - | - | - |\<newline>'' @
        concat (map (\<lambda>c. ''| '' @ component_name c @ '' | '' @ component_symbol c @ '' | '' @
                         fmt (units c) @ '' |\<newline>'') comps) @
        ''\<newline>''"
    unfolding rows [symmetric]
    by (simp add: addIndexParameters_def Let_def js_join_empty_separator)
next
  show "\<exists>before. section_of fmt orc t =
      before @ addIndexParameters fmt (index t) (inverted t) (asset t) (name t) @
      ''>'' @ description t"
    unfolding section_of_def by (metis append.assoc)
qed

text \<open>An inverted index gets the link line only; the same index, not inverted, the table.\<close>

theorem index_block_witness:
  "addIndexParameters toString
     (Some [\<lparr>component_symbol = ''BNB'', component_name = ''Binance Coin'', units = Finite 5\<rparr>])
     (Some \<lparr>entryPoint = Finite 100, upperLimit = Finite 150, lowerLimit = Finite 50\<rparr>)
     ''CEX'' ''Inverted Exchange Index'' =
     ''**Index of**: [sCEX](#exchange-index-scex)\<newline>\<newline>'' \<and>
   addIndexParameters toString
     (Some [\<lparr>component_symbol = ''BNB'', component_name = ''Binance Coin'', units = Finite 5\<rparr>])
     None ''CEX'' ''Synth Exchange Index'' =
     ''**Index of**: [sCEX](#exchange-index-scex)\<newline>\<newline>| Token | Symbol | Units |\<newline>| - | - | - |\<newline>| Binance Coin | BNB | 5 |\<newline>\<newline>''"
proof -
  have link: "getLinkToAsset ''Inverted Exchange Index'' ''CEX'' = ''exchange-index-scex''"
    "getLinkToAsset ''Synth Exchange Index'' ''CEX'' = ''exchange-index-scex''"
    by code_simp+
  have five: "toString (Finite 5) = ''5''"
    by code_simp
  show ?thesis
    using index_block
      [of toString
        "Some [\<lparr>component_symbol = ''BNB'', component_name = ''Binance Coin'', units = Finite 5\<rparr>]"
        "Some \<lparr>entryPoint = Finite 100, upperLimit = Finite 150, lowerLimit = Finite 50\<rparr>"
        "''CEX''" "''Inverted Exchange Index''"]
      index_block
      [of toString
        "Some [\<lparr>component_symbol = ''BNB'', component_name = ''Binance Coin'', units = Finite 5\<rparr>]"
        None "''CEX''" "''Synth Exchange Index''"]
    by (simp add: link five del: toString.simps)
qed

subsection \<open>The oracle block\<close>

text \<open>
  Claim C6 holds for every asset but the names of the members of \<open>Object.prototype\<close>:
  there the read \<open>linkMap[asset]\<close> finds the inherited member, and the slug is its text.
  The asset \<open>constructor\<close> with a feed address:
\<close>

theorem oracle_slug_inherited_member:
  "addOracleParameters ''0xAC'' ''constructor'' (Some ''0xFE'') =
     ''**Price Feed**: Chainlink (decentralized)\<newline>\<newline>- Oracles: [Network overview](https://feeds.chain.link/function Object() { [native code] })\<newline>- Contract: [Aggregator](https://etherscan.io/address/0xFE)\<newline>\<newline>'' \<and>
   symbolLink ''constructor'' \<noteq> toLowerCase ''constructor'' @ ''-usd''"
  by code_simp

text \<open>The rest of the claim: the centralized block, and the slug of any other asset.\<close>

lemma oracle_block_centralized:
  "addOracleParameters orc ast fd = centralized_block orc \<longleftrightarrow> fd = None \<or> fd = Some []"
  by (cases fd) (simp_all add: addOracleParameters_def centralized_block_def)

lemma oracle_slug_own:
  "object_prototype ast = None \<Longrightarrow>
   symbolLink ast =
     (if ast = ''FTSE100'' then ''ftse-gbp''
      else if ast = ''NIKKEI225'' then ''n225-jpy''
      else toLowerCase ast @ ''-usd'')"
  by (simp add: symbolLink_def linkMap_def)

subsection \<open>The order of the sections\<close>

lemma mset_insert_element: "mset (insert_element c e xs) = add_mset e (mset xs)"
  by (induction xs) simp_all

lemma set_insert_element: "set (insert_element c e xs) = insert e (set xs)"
  by (induction xs) auto

lemma sorted_insert_element:
  fixes k :: "'a \<Rightarrow> 'b::linorder"
  assumes "sorted_wrt (\<lambda>a b. k b \<le> k a) xs"
  shows "sorted_wrt (\<lambda>a b. k b \<le> k a)
           (insert_element (\<lambda>a b. if k a > k b then 1 else - 1) e xs)"
  using assms
proof (induction xs)
  case Nil
  show ?case by simp
next
  case (Cons x xs)
  show ?case
  proof (cases "k x > k e")
    case True
    with Cons show ?thesis
      by (auto simp: set_insert_element)
  next
    case False
    with Cons.prems show ?thesis
      by (auto simp: not_less intro: order_trans)
  qed
qed

lemma foldl_insert_element:
  fixes k :: "'a \<Rightarrow> 'b::linorder"
  assumes "sorted_wrt (\<lambda>a b. k b \<le> k a) acc"
  shows "sorted_wrt (\<lambda>a b. k b \<le> k a)
           (foldl (\<lambda>acc e. insert_element (\<lambda>a b. if k a > k b then 1 else - 1) e acc) acc xs) \<and>
         mset (foldl (\<lambda>acc e. insert_element (\<lambda>a b. if k a > k b then 1 else - 1) e acc) acc xs) =
           mset acc + mset xs"
  using assms
proof (induction xs arbitrary: acc)
  case Nil
  then show ?case by simp
next
  case (Cons x xs)
  from Cons.IH [OF sorted_insert_element [OF Cons.prems]]
  show ?case by (simp add: mset_insert_element)
qed

lemma js_sort_by_key:
  fixes k :: "'a \<Rightarrow> 'b::linorder"
  shows "sorted_wrt (\<lambda>a b. k a \<le> k b) (js_sort (\<lambda>a b. if k a > k b then 1 else - 1) xs)"
    and "mset (js_sort (\<lambda>a b. if k a > k b then 1 else - 1) xs) = mset xs"
  using foldl_insert_element [of k "[]" xs]
  by (simp_all add: js_sort_def sorted_wrt_rev)


text \<open>
  When no two tokens share a display name, the order of the sections is the same for
  every order of the tokens before the sort, so the sort by asset leaves no trace.
\<close>

lemma mset_js_sort: "mset (js_sort c xs) = mset xs"
proof -
  have "mset (foldl (\<lambda>acc e. insert_element c e acc) acc xs) = mset acc + mset xs" for acc
    by (induction xs arbitrary: acc) (simp_all add: mset_insert_element)
  from this [of "[]"] show ?thesis
    by (simp add: js_sort_def)
qed

lemma sections_unique:
  assumes "distinct (map name xs)" and "mset ys = mset xs"
  shows "sections ys = sections xs"
proof -
  have m: "mset (sections ys) = mset (sections xs)"
    by (simp add: sections_def mset_js_sort assms(2))
  then have s: "set (sections ys) = set (sections xs)"
    by (rule mset_eq_setD)
  have "mset (map name (sections xs)) = mset (map name xs)"
    by (simp add: sections_def mset_js_sort)
  then have dx: "distinct (map name (sections xs))"
    using assms(1) by (metis mset_eq_imp_distinct_iff)
  have dy: "distinct (map name (sections ys))"
    using dx m by (metis mset_map mset_eq_imp_distinct_iff)
  have "sorted (map name (sections xs))" "sorted (map name (sections ys))"
    using js_sort_by_key(1) [of name] by (simp_all add: sections_def sorted_map)
  then have "map name (sections ys) = map name (sections xs)"
    using dx dy s by (intro sorted_distinct_set_unique) simp_all
  moreover have "inj_on name (set (sections ys) \<union> set (sections xs))"
    using dx s by (simp add: distinct_map)
  ultimately show ?thesis
    by (rule map_inj_on)
qed

lemma asset_sort_irrelevant:
  "distinct (map name ts) \<Longrightarrow> sections (js_sort c ts) = sections ts"
  by (rule sections_unique) (simp_all add: mset_js_sort)

subsection \<open>Tokens without a synth\<close>

text \<open>
  Claim C10. The entry of the token \<open>SNX\<close> gets the fixed description whatever the synths
  are: the describer is not called, so no synth has to match.
\<close>

theorem snx_description_fixed:
  "symbol entry = ''SNX'' \<Longrightarrow>
   describe_entry synths entry =
     Inr \<lparr>symbol = ''SNX'', token_desc = token_desc entry, asset = asset entry,
          address = address entry, decimals = decimals entry, index = index entry,
          inverted = inverted entry, feed = feed entry, name = token_desc entry,
          description = ''The Synthetix Network Token (SNX) gets staked as collateral to back Synths and entitles stakers to receive fees generated by Synth trades on Synthetix.Exchange.''\<rparr>"
  by (simp add: describe_entry_def snx_description_def)

theorem snx_description_fixed_witness:
  "describe_entry []
     \<lparr>symbol = ''SNX'', token_desc = ''Synthetix'', asset = ''SNX'', address = ''0xC0'',
        decimals = Finite 18, index = None, inverted = None, feed = None\<rparr> =
     Inr \<lparr>symbol = ''SNX'', token_desc = ''Synthetix'', asset = ''SNX'', address = ''0xC0'',
          decimals = Finite 18, index = None, inverted = None, feed = None,
          name = ''Synthetix'',
          description = ''The Synthetix Network Token (SNX) gets staked as collateral to back Synths and entitles stakers to receive fees generated by Synth trades on Synthetix.Exchange.''\<rparr>"
  using snx_description_fixed
    [of "\<lparr>symbol = ''SNX'', token_desc = ''Synthetix'', asset = ''SNX'', address = ''0xC0'',
           decimals = Finite 18, index = None, inverted = None, feed = None\<rparr>" "[]"]
  by simp

lemma map_result_fails:
  "x \<in> set xs \<Longrightarrow> f x = Inl e \<Longrightarrow> \<exists>e'. map_result f xs = Inl e'"
  by (induction xs) (auto split: sum.splits)

lemma describe_entry_unmatched:
  "symbol entry \<noteq> ''SNX'' \<Longrightarrow> find (\<lambda>s. synth_name s = symbol entry) synths = None \<Longrightarrow>
   describe_entry synths entry = Inl TypeError"
  by (simp add: describe_entry_def desc_def)

text \<open>
  Claim C9, as stated, fails on the token \<open>SNX\<close>: with no synth of that name the run
  ends without an exception and writes the page.
\<close>

theorem build_succeeds_on_unmatched_snx:
  "find (\<lambda>s. synth_name s = ''SNX'') [] = None \<and>
   fst (build_tokens
          \<lparr>getSynths = [],
             getTokens = [\<lparr>symbol = ''SNX'', token_desc = ''Synthetix'', asset = ''SNX'',
                           address = ''0xC0'', decimals = Finite 18, index = None,
                           inverted = None, feed = None\<rparr>],
             oracle_address = ''0xAC''\<rparr>
          toString \<lparr>files = Map.empty, console = []\<rparr>) = None \<and>
   files (snd (build_tokens
          \<lparr>getSynths = [],
             getTokens = [\<lparr>symbol = ''SNX'', token_desc = ''Synthetix'', asset = ''SNX'',
                           address = ''0xC0'', decimals = Finite 18, index = None,
                           inverted = None, feed = None\<rparr>],
             oracle_address = ''0xAC''\<rparr>
          toString \<lparr>files = Map.empty, console = []\<rparr>)) output_path \<noteq> None"
  by (simp add: build_tokens_def tokens_def describe_entry_def js_sort_def Let_def)

text \<open>
  Claim C9, amended. When a token other than \<open>SNX\<close> has no synth of its symbol, its
  description raises a TypeError, the run ends with an exception raised while the
  descriptions are made, and no file is written or changed: the page is written only
  once it is whole.
\<close>

theorem build_fails_on_unmatched_token:
  assumes "entry \<in> set (getTokens reg)" and "symbol entry \<noteq> ''SNX''"
    and "find (\<lambda>s. synth_name s = symbol entry) (getSynths reg) = None"
  shows "describe_entry (getSynths reg) entry = Inl TypeError \<and>
         (\<exists>e. tokens reg = Inl e \<and> fst (build_tokens reg fmt w) = Some e) \<and>
         files (snd (build_tokens reg fmt w)) = files w"
proof -
  have d: "describe_entry (getSynths reg) entry = Inl TypeError"
    using assms(2,3) by (rule describe_entry_unmatched)
  from assms(1) d obtain e where "tokens reg = Inl e"
    using map_result_fails [of entry "getTokens reg" "describe_entry (getSynths reg)" TypeError]
    by (auto simp: tokens_def)
  with d show ?thesis
    by (simp add: build_tokens_def Let_def)
qed

theorem build_fails_on_unmatched_token_witness:
  "describe_entry []
     \<lparr>symbol = ''sBTC'', token_desc = ''Bitcoin'', asset = ''BTC'', address = ''0xC1'',
        decimals = Finite 18, index = None, inverted = None, feed = None\<rparr> = Inl TypeError \<and>
   (\<exists>e. tokens \<lparr>getSynths = [],
                  getTokens = [\<lparr>symbol = ''sBTC'', token_desc = ''Bitcoin'', asset = ''BTC'',
                                address = ''0xC1'', decimals = Finite 18, index = None,
                                inverted = None, feed = None\<rparr>],
                  oracle_address = ''0xAC''\<rparr> = Inl e \<and>
        fst (build_tokens
               \<lparr>getSynths = [],
                  getTokens = [\<lparr>symbol = ''sBTC'', token_desc = ''Bitcoin'', asset = ''BTC'',
                                address = ''0xC1'', decimals = Finite 18, index = None,
                                inverted = None, feed = None\<rparr>],
                  oracle_address = ''0xAC''\<rparr>
               toString \<lparr>files = Map.empty, console = []\<rparr>) = Some e) \<and>
   files (snd (build_tokens
          \<lparr>getSynths = [],
             getTokens = [\<lparr>symbol = ''sBTC'', token_desc = ''Bitcoin'', asset = ''BTC'',
                           address = ''0xC1'', decimals = Finite 18, index = None,
                           inverted = None, feed = None\<rparr>],
             oracle_address = ''0xAC''\<rparr>
          toString \<lparr>files = Map.empty, console = []\<rparr>)) = Map.empty"
  using build_fails_on_unmatched_token
    [of "\<lparr>symbol = ''sBTC'', token_desc = ''Bitcoin'', asset = ''BTC'', address = ''0xC1'',
           decimals = Finite 18, index = None, inverted = None, feed = None\<rparr>"
        "\<lparr>getSynths = [],
           getTokens = [\<lparr>symbol = ''sBTC'', token_desc = ''Bitcoin'', asset = ''BTC'',
                         address = ''0xC1'', decimals = Finite 18, index = None,
                         inverted = None, feed = None\<rparr>],
           oracle_address = ''0xAC''\<rparr>"
        toString "\<lparr>files = Map.empty, console = []\<rparr>"]
  by simp

end
